theory Spec2Isabelle
  imports Complex_Main "HOL-Library.Sublist"
begin

section \<open>Remote queries and promises\<close>

text \<open>
  The browser talks to the terminology server through \<^verbatim>\<open>$.ajax\<close>. A request is the
  operation appended to the base URI together with the parameter object. Parameter values
  are strings, numbers or booleans.
\<close>

datatype pval = Str string | Num int | Bool bool

type_synonym params = "(string \<times> pval) list"
type_synonym request = "string \<times> params"

text \<open>
  What \<^verbatim>\<open>$.ajax\<close> eventually does with a request: it calls \<^verbatim>\<open>success\<close> with the parsed
  body, it calls \<^verbatim>\<open>error\<close> (the flag says whether \<^verbatim>\<open>jqXHR.responseJSON\<close> is set; then come
  \<^verbatim>\<open>responseText\<close> and \<^verbatim>\<open>status\<close>), or it never calls back.
\<close>

datatype 'r ajax = Success 'r | Failure bool string nat | NoReply

text \<open>
  A promise is modelled by what it settles with. An \<^verbatim>\<open>Error\<close> object is represented by
  its \<^verbatim>\<open>message\<close>. \<open>Pending\<close> is a promise that never settles.
\<close>

datatype 'a promise = Fulfilled 'a | Rejected string | Pending

definition then_promise :: "('a \<Rightarrow> 'b) \<Rightarrow> 'a promise \<Rightarrow> 'b promise" where
  "then_promise f p =
     (case p of Fulfilled x \<Rightarrow> Fulfilled (f x) | Rejected e \<Rightarrow> Rejected e | Pending \<Rightarrow> Pending)"

text \<open>\<^verbatim>\<open>String(n)\<close> for a non-negative integer, used for \<^verbatim>\<open>new Error(jqXHR.status)\<close>.\<close>

definition digit_char :: "nat \<Rightarrow> char" where
  "digit_char d = ''0123456789'' ! d"

fun string_of_nat :: "nat \<Rightarrow> string" where
  "string_of_nat n =
     (if n < 10 then [digit_char n] else string_of_nat (n div 10) @ [digit_char (n mod 10)])"

declare string_of_nat.simps [simp del]

text \<open>
  \<^verbatim>\<open>query(operation, params)\<close>: sends one GET request and returns a promise. The list of
  requests sent so far is threaded through; the first argument is the behaviour of the server.
\<close>

definition query ::
  "(request \<Rightarrow> 'r ajax) \<Rightarrow> string \<Rightarrow> params \<Rightarrow> request list \<Rightarrow> 'r promise \<times> request list" where
  "query server operation params sent =
     ((case server (operation, params) of
         Success data \<Rightarrow> Fulfilled data
       | Failure responseJSON responseText status \<Rightarrow>
           if responseJSON then Rejected responseText else Rejected (string_of_nat status)
       | NoReply \<Rightarrow> Pending),
      sent @ [(operation, params)])"

subsection \<open>FHIR data\<close>

record resource =
  rid :: string
  rname :: string
  description :: string
  url :: string

record entry =
  resource :: resource
  fullUrl :: string

record searchset =
  entry :: "entry list option"

record concept =
  code_c :: string
  display :: string
  system :: string
  designation :: "string list"
  inactive :: bool

record expansion =
  contains :: "concept list option"
  offset_e :: "int option"
  total_e :: "int option"

record valueset =
  expansion :: expansion

text \<open>
  The object handed to the result handler of a search: \<^verbatim>\<open>{results, offset, pageSize, total}\<close>,
  where every attribute but \<^verbatim>\<open>results\<close> may be \<^verbatim>\<open>undefined\<close>.
\<close>

record 'i response =
  results :: "'i list"
  offset_r :: "int option"
  pageSize :: "int option"
  total_r :: "int option"

definition only_results :: "'i list \<Rightarrow> 'i response" where
  "only_results xs = \<lparr>results = xs, offset_r = None, pageSize = None, total_r = None\<rparr>"

text \<open>\<^verbatim>\<open>queryFHIRResource\<close>: the attribute \<^verbatim>\<open>entry\<close> of the answer, or the empty list.\<close>

definition queryFHIRResource ::
  "(request \<Rightarrow> searchset ajax) \<Rightarrow> string \<Rightarrow> params \<Rightarrow> request list
     \<Rightarrow> entry response promise \<times> request list" where
  "queryFHIRResource server operation params sent =
     (case query server operation params sent of
        (p, sent') \<Rightarrow>
          (then_promise (\<lambda>response. only_results (case entry response of None \<Rightarrow> [] | Some es \<Rightarrow> es)) p,
           sent'))"

subsection \<open>Merged resource queries\<close>

text \<open>The \<^verbatim>\<open>forEach\<close> that launches every query and pushes its promise onto \<^verbatim>\<open>queries\<close>.\<close>

fun launch ::
  "(request \<Rightarrow> searchset ajax) \<Rightarrow> request list \<Rightarrow> entry response promise list \<times> request list
     \<Rightarrow> entry response promise list \<times> request list" where
  "launch server [] (queries, sent) = (queries, sent)"
| "launch server (pair # pairs) (queries, sent) =
     (case queryFHIRResource server (fst pair) (snd pair) sent of
        (p, sent') \<Rightarrow> launch server pairs (queries @ [p], sent'))"

text \<open>
  The inner \<^verbatim>\<open>forEach\<close> over the results of one answer: an item is pushed when its
  \<^verbatim>\<open>resource.id\<close> is not yet in \<^verbatim>\<open>uniqueIds\<close>.
\<close>

fun addUnique :: "entry list \<Rightarrow> entry list \<times> string list \<Rightarrow> entry list \<times> string list" where
  "addUnique [] (uniqueResults, uniqueIds) = (uniqueResults, uniqueIds)"
| "addUnique (item # items) (uniqueResults, uniqueIds) =
     (if rid (resource item) \<notin> set uniqueIds
      then addUnique items (uniqueResults @ [item], uniqueIds @ [rid (resource item)])
      else addUnique items (uniqueResults, uniqueIds))"

text \<open>
  \<^verbatim>\<open>processResults\<close>: while there are queries left, pop the last one and wait for it; when
  it is fulfilled merge its results and go on, when it is rejected reject the whole
  promise. When no query is left, resolve.
\<close>

function processResults ::
  "entry response promise list \<Rightarrow> entry list \<times> string list \<Rightarrow> entry response promise" where
  "processResults queries (uniqueResults, uniqueIds) =
     (if length queries \<le> 0 then Fulfilled (only_results uniqueResults)
      else
        (case last queries of
           Fulfilled response \<Rightarrow>
             processResults (butlast queries) (addUnique (results response) (uniqueResults, uniqueIds))
         | Rejected error \<Rightarrow> Rejected error
         | Pending \<Rightarrow> Pending))"
  by pat_completeness auto
termination
  by (relation "measure (\<lambda>(queries, acc). length queries)") auto

declare processResults.simps [simp del]

definition mergedFHIRResourceQueries ::
  "(request \<Rightarrow> searchset ajax) \<Rightarrow> request list \<Rightarrow> request list
     \<Rightarrow> entry response promise \<times> request list" where
  "mergedFHIRResourceQueries server queriesArguments sent =
     (case launch server queriesArguments ([], sent) of
        (queries, sent') \<Rightarrow> (processResults queries ([], []), sent'))"

text \<open>The three queries that \<^verbatim>\<open>handleCodeSystem\<close> and \<^verbatim>\<open>handleValueSet\<close> merge.\<close>

definition resourceQueries :: "string \<Rightarrow> string \<Rightarrow> request list" where
  "resourceQueries operation v =
     [(operation, [(''name:contains'', Str v)]),
      (operation, [(''description:contains'', Str v)]),
      (operation, [(''url'', Str v)])]"

section \<open>The state of the page\<close>

type_synonym token = int

record searchParams =
  count :: int
  offset :: int
  activeOnly :: bool
  includeDesignations :: bool

text \<open>
  The global \<^verbatim>\<open>context\<close> object. Its attributes \<^verbatim>\<open>codeSystem\<close>, \<^verbatim>\<open>valueSet\<close> and
  \<^verbatim>\<open>concept\<close> are written when a result is clicked and read nowhere; clicks on results
  are not part of this model.
\<close>

record appContext =
  latestSearchToken :: "token option"
  conceptSearch :: searchParams
  eclSearch :: searchParams

datatype surface = CodeSystems | ValueSets | Concepts | ECLFilters

datatype item = ResourceItem entry | ConceptItem concept

text \<open>The list of page links built by \<^verbatim>\<open>getPagination\<close>; the callback is the closure
  \<^verbatim>\<open>onPageChange\<close>, which is determined by the search token it captured.\<close>

record pagination =
  current :: int
  npages :: int
  pageCallback :: token

record pageInfo =
  firstResult :: int
  lastResult :: int
  ofTotal :: "int option"
  pager :: pagination

text \<open>What a results container holds.\<close>

datatype content =
    Cleared
  | PageInfoStub
  | Listing "pageInfo option" "item list"
  | NoResults
  | ErrorNotice

record pane =
  html :: content
  shown :: bool

record icon =
  rotation :: bool
  paused :: bool

record errorBox =
  e_html :: string
  e_shown :: bool

record filterRow =
  op :: string
  opLong :: string
  code :: string
  label :: string

text \<open>
  Where the page is scrolled to. The page itself scrolls only to the title of the ECL
  results; every other position is the user's.
\<close>

datatype viewport = Elsewhere | ECLResultsTitle

datatype flight =
    MergedFlight surface token "entry response promise"
  | ExpandFlight surface token "valueset promise"

record state =
  ctx :: appContext
  fieldVal :: "surface \<Rightarrow> string"
  labelActive :: "surface \<Rightarrow> bool"
  resultsContainer :: "surface \<Rightarrow> pane"
  loadingIcon :: "surface \<Rightarrow> icon"
  targetError :: errorBox
  filters :: "filterRow list"
  sent :: "request list"
  inflight :: "flight list"
  viewport :: viewport
  hung :: bool

text \<open>
  The values a numeric expression of the page can take: an integer, or one of the special
  values of a double.
\<close>

datatype jsnum = Finite int | NaN | PosInf | NegInf

text \<open>
  What the page cannot decide: the answers of the server, \<^verbatim>\<open>JSON.parse\<close> together with
  \<^verbatim>\<open>JSON.stringify(_, null, 2)\<close>, and the value of \<^verbatim>\<open>Math.ceil(x / y)\<close> in the double
  arithmetic of the engine for integers that are not both safe integers.
\<close>

record 'j world =
  searchServer :: "request \<Rightarrow> searchset ajax"
  expandServer :: "request \<Rightarrow> valueset ajax"
  JSON_parse :: "string \<Rightarrow> 'j option"
  JSON_stringify :: "'j \<Rightarrow> string"
  Math_ceil_div :: "int \<Rightarrow> int \<Rightarrow> jsnum"

section \<open>Search field subscription\<close>

datatype evtype = Change | Keypress

record event =
  etype :: evtype
  keyCode :: nat

text \<open>
  \<^verbatim>\<open>String.prototype.trim\<close>. A character stands for one code unit below 256; the white
  space and line terminators in that range are TAB, LF, VT, FF, CR, SP and NBSP.
\<close>

definition isWhiteSpace :: "char \<Rightarrow> bool" where
  "isWhiteSpace c = ((of_char c :: nat) \<in> {9, 10, 11, 12, 13, 32, 160})"

definition trim :: "string \<Rightarrow> string" where
  "trim s = rev (dropWhile isWhiteSpace (rev (dropWhile isWhiteSpace s)))"

text \<open>
  The handler that \<^verbatim>\<open>subscribe(field, callback, minLength)\<close> binds to \<^verbatim>\<open>change\<close> and
  \<^verbatim>\<open>keypress\<close>. \<open>v\<close> is \<^verbatim>\<open>evt.target.value\<close> and \<open>now\<close> is \<^verbatim>\<open>+ new Date()\<close>. The second
  component of the result is the token the callback is called with, if it is called.
\<close>

definition subscribe ::
  "nat option \<Rightarrow> event \<Rightarrow> string \<Rightarrow> token \<Rightarrow> appContext \<Rightarrow> appContext \<times> token option" where
  "subscribe minLength evt v now c =
     (let minLength' = (case minLength of None \<Rightarrow> 2 | Some m \<Rightarrow> m) in
      if etype evt = Keypress \<and> keyCode evt \<noteq> 13 then (c, None)
      else if length (trim v) < minLength' then (c, None)
      else (c\<lparr>latestSearchToken := Some now\<rparr>, Some now))"

text \<open>The third argument of each call of \<^verbatim>\<open>subscribe\<close>: only \<^verbatim>\<open>handleECLFilter\<close> gives one.\<close>

definition minLengthOf :: "surface \<Rightarrow> nat option" where
  "minLengthOf sf = (case sf of ECLFilters \<Rightarrow> Some 1 | _ \<Rightarrow> None)"

section \<open>Pagination\<close>

text \<open>\<^verbatim>\<open>Number.isSafeInteger\<close>: the integers of absolute value below \<open>2 ^ 53\<close>.\<close>

definition isSafeInteger :: "int \<Rightarrow> bool" where
  "isSafeInteger n = (- 9007199254740992 < n \<and> n < 9007199254740992)"

text \<open>
  \<^verbatim>\<open>Math.ceil(a / b)\<close>, where \<^verbatim>\<open>undefined\<close> is converted to \<^verbatim>\<open>NaN\<close>. The offset and the
  total of an expansion are of the FHIR type \<^verbatim>\<open>integer\<close>, so the operands are integers. The
  division is a division of doubles. When both operands are safe integers and the exact
  quotient is not an integer, its distance to the next integers is at least \<open>1 / \<bar>b\<bar>\<close>,
  more than the rounding error of the division, so that \<^verbatim>\<open>Math.ceil\<close> of the rounded
  quotient is the ceiling of the exact one; an integer quotient is not rounded. For
  operands beyond the safe integers the result is the engine's.
\<close>

definition Math_ceil_quot :: "'j world \<Rightarrow> int option \<Rightarrow> int option \<Rightarrow> jsnum" where
  "Math_ceil_quot W a b =
     (case a of
        None \<Rightarrow> NaN
      | Some x \<Rightarrow>
          (case b of
             None \<Rightarrow> NaN
           | Some y \<Rightarrow>
               if isSafeInteger x \<and> isSafeInteger y then
                 (if y = 0 then (if x = 0 then NaN else if 0 < x then PosInf else NegInf)
                  else Finite \<lceil>real_of_int x / real_of_int y\<rceil>)
               else Math_ceil_div W x y))"

fun plus_one :: "jsnum \<Rightarrow> jsnum" where
  "plus_one (Finite n) = Finite (n + 1)"
| "plus_one NaN = NaN"
| "plus_one PosInf = PosInf"
| "plus_one NegInf = NegInf"

text \<open>The two numbers \<^verbatim>\<open>handleSearchField\<close> passes to \<^verbatim>\<open>getPagination\<close>.\<close>

definition currentPage :: "'j world \<Rightarrow> 'i response \<Rightarrow> jsnum" where
  "currentPage W response = plus_one (Math_ceil_quot W (offset_r response) (pageSize response))"

definition pageCount :: "'j world \<Rightarrow> 'i response \<Rightarrow> jsnum" where
  "pageCount W response = Math_ceil_quot W (total_r response) (pageSize response)"

datatype 'a completion = Returns 'a | Throws | NeverReturns

text \<open>
  \<^verbatim>\<open>getPagination(current, total, pageCallback)\<close>: the loop builds one link for every
  \<open>i\<close> from 1 with \<^verbatim>\<open>i <= total\<close>, which never ends when the total is infinite;
  \<^verbatim>\<open>pages[current - 1].addClass\<close> raises a \<^verbatim>\<open>TypeError\<close> when there is no such link.
\<close>

definition getPagination :: "jsnum \<Rightarrow> jsnum \<Rightarrow> token \<Rightarrow> pagination completion" where
  "getPagination cur total_p cb =
     (case total_p of
        PosInf \<Rightarrow> NeverReturns
      | Finite t \<Rightarrow>
          (case cur of
             Finite c \<Rightarrow>
               if 1 \<le> c \<and> c \<le> t then Returns \<lparr>current = c, npages = t, pageCallback = cb\<rparr>
               else Throws
           | NaN \<Rightarrow> Throws | PosInf \<Rightarrow> Throws | NegInf \<Rightarrow> Throws)
      | NaN \<Rightarrow> Throws
      | NegInf \<Rightarrow> Throws)"

section \<open>Handling a search\<close>

definition setHtml :: "surface \<Rightarrow> content \<Rightarrow> state \<Rightarrow> state" where
  "setHtml sf c st =
     st\<lparr>resultsContainer := (resultsContainer st)(sf := (resultsContainer st sf)\<lparr>html := c\<rparr>)\<rparr>"

definition showResults :: "surface \<Rightarrow> state \<Rightarrow> state" where
  "showResults sf st =
     st\<lparr>resultsContainer := (resultsContainer st)(sf := (resultsContainer st sf)\<lparr>shown := True\<rparr>)\<rparr>"

definition addPaused :: "surface \<Rightarrow> state \<Rightarrow> state" where
  "addPaused sf st = st\<lparr>loadingIcon := (loadingIcon st)(sf := (loadingIcon st sf)\<lparr>paused := True\<rparr>)\<rparr>"

datatype outcome = Done state | Raised state | Hung state

text \<open>
  The first callback of \<^verbatim>\<open>apiQueryBuilder(searchValue).then\<close> in \<^verbatim>\<open>handleSearchField\<close>,
  for the search with token \<open>searchToken\<close> on the field of \<open>sf\<close>. Its first statement
  returns unless \<^verbatim>\<open>context.latestSearchToken\<close> is the token of the search.
\<close>

definition isCurrent :: "state \<Rightarrow> token \<Rightarrow> bool" where
  "isCurrent st searchToken = (latestSearchToken (ctx st) = Some searchToken)"

definition onResponse ::
  "'j world \<Rightarrow> token \<Rightarrow> surface \<Rightarrow> item response \<Rightarrow> state \<Rightarrow> outcome" where
  "onResponse W searchToken sf response st =
     (if \<not> isCurrent st searchToken then Done st
      else
        let st1 = st\<lparr>targetError := (targetError st)\<lparr>e_shown := False\<rparr>\<rparr> in
        if length (results response) > 0 then
          (case offset_r response of
             None \<Rightarrow>
               Done (addPaused sf (showResults sf (setHtml sf (Listing None (results response)) st1)))
           | Some off \<Rightarrow>
               (case getPagination (currentPage W response) (pageCount W response) searchToken of
                  Returns pg \<Rightarrow>
                    Done (addPaused sf (showResults sf (setHtml sf
                      (Listing (Some \<lparr>firstResult = off + 1,
                                      lastResult = off + int (length (results response)),
                                      ofTotal = total_r response, pager = pg\<rparr>)
                               (results response)) st1)))
                | Throws \<Rightarrow> Raised (setHtml sf PageInfoStub st1)
                | NeverReturns \<Rightarrow> Hung (setHtml sf PageInfoStub st1)))
        else Done (addPaused sf (showResults sf (setHtml sf NoResults st1))))"

text \<open>The second callback, for a rejected promise; \<open>message\<close> is \<^verbatim>\<open>error.message\<close>.\<close>

definition onError :: "'j world \<Rightarrow> token \<Rightarrow> surface \<Rightarrow> string \<Rightarrow> state \<Rightarrow> state" where
  "onError W searchToken sf message st =
     (let st1 = showResults sf (setHtml sf ErrorNotice (addPaused sf st)) in
      st1\<lparr>targetError :=
            \<lparr>e_html = (case JSON_parse W message of
                         Some jsonError \<Rightarrow> JSON_stringify W jsonError
                       | None \<Rightarrow> message),
             e_shown = True\<rparr>\<rparr>)"

definition settle :: "'j world \<Rightarrow> token \<Rightarrow> surface \<Rightarrow> item response promise \<Rightarrow> state \<Rightarrow> outcome" where
  "settle W searchToken sf p st =
     (case p of
        Fulfilled response \<Rightarrow> onResponse W searchToken sf response st
      | Rejected message \<Rightarrow> Done (onError W searchToken sf message st)
      | Pending \<Rightarrow> Done st)"

text \<open>The \<^verbatim>\<open>apiQueryBuilder\<close> of each surface: the requests it sends and the promise it returns.\<close>

definition expandParams :: "string \<Rightarrow> (string \<times> pval) list \<Rightarrow> searchParams \<Rightarrow> params" where
  "expandParams u extra sp =
     [(''url'', Str u)] @ extra @
     [(''offset'', Num (offset sp)), (''count'', Num (count sp)),
      (''activeOnly'', Bool (activeOnly sp)),
      (''includeDesignations'', Bool (includeDesignations sp))]"

definition eclUrl :: "string \<Rightarrow> string \<Rightarrow> string" where
  "eclUrl u v = (if \<not> suffix ''?fhir_vs'' u then u @ ''?fhir_vs'' else u) @ ''=ecl/'' @ v"

definition apiQueryBuilder :: "'j world \<Rightarrow> surface \<Rightarrow> token \<Rightarrow> string \<Rightarrow> state \<Rightarrow> state" where
  "apiQueryBuilder W sf searchToken v st =
     (case sf of
        CodeSystems \<Rightarrow>
          (case mergedFHIRResourceQueries (searchServer W) (resourceQueries ''CodeSystem'' v) (sent st) of
             (p, sent') \<Rightarrow> st\<lparr>sent := sent', inflight := inflight st @ [MergedFlight sf searchToken p]\<rparr>)
      | ValueSets \<Rightarrow>
          (case mergedFHIRResourceQueries (searchServer W) (resourceQueries ''ValueSet'' v) (sent st) of
             (p, sent') \<Rightarrow> st\<lparr>sent := sent', inflight := inflight st @ [MergedFlight sf searchToken p]\<rparr>)
      | Concepts \<Rightarrow>
          (case query (expandServer W) ''ValueSet/$expand''
                  (expandParams (fieldVal st ValueSets) [(''filter'', Str v)] (conceptSearch (ctx st)))
                  (sent st) of
             (p, sent') \<Rightarrow> st\<lparr>sent := sent', inflight := inflight st @ [ExpandFlight sf searchToken p]\<rparr>)
      | ECLFilters \<Rightarrow>
          (case query (expandServer W) ''ValueSet/$expand''
                  (expandParams (eclUrl (fieldVal st ValueSets) v) [] (eclSearch (ctx st)))
                  (sent st) of
             (p, sent') \<Rightarrow> st\<lparr>sent := sent', inflight := inflight st @ [ExpandFlight sf searchToken p]\<rparr>))"

text \<open>The part of \<^verbatim>\<open>handleSearchField\<close> that runs at once.\<close>

definition handleSearchField :: "'j world \<Rightarrow> token \<Rightarrow> surface \<Rightarrow> state \<Rightarrow> state" where
  "handleSearchField W searchToken sf st =
     (let searchValue = fieldVal st sf;
          st1 = st\<lparr>loadingIcon := (loadingIcon st)(sf := \<lparr>rotation = True, paused = False\<rparr>)\<rparr>
      in apiQueryBuilder W sf searchToken searchValue st1)"

text \<open>
  The callbacks that the two concept searches chain to their query. Both return the
  simplified response built from the expansion. The one of the ECL search first runs
  \<^verbatim>\<open>$("html,body").animate({scrollTop: $("#ecl-filters-title").offset().top}, 1000)\<close>: every
  fulfilled answer to an ECL query scrolls the page to the title of the ECL results,
  before the result handler of \<^verbatim>\<open>handleSearchField\<close> looks at the token.
\<close>

definition focusResults :: "surface \<Rightarrow> valueset promise \<Rightarrow> state \<Rightarrow> state" where
  "focusResults sf p st =
     (case p of
        Fulfilled response \<Rightarrow> if sf = ECLFilters then st\<lparr>viewport := ECLResultsTitle\<rparr> else st
      | Rejected message \<Rightarrow> st
      | Pending \<Rightarrow> st)"

definition simplified :: "surface \<Rightarrow> appContext \<Rightarrow> valueset \<Rightarrow> item response" where
  "simplified sf c response =
     \<lparr>results = (case contains (expansion response) of None \<Rightarrow> [] | Some cs \<Rightarrow> map ConceptItem cs),
      offset_r = offset_e (expansion response),
      pageSize = Some (count (if sf = ECLFilters then eclSearch c else conceptSearch c)),
      total_r = total_e (expansion response)\<rparr>"

definition asItems :: "entry response \<Rightarrow> item response" where
  "asItems response =
     \<lparr>results = map ResourceItem (results response), offset_r = offset_r response,
      pageSize = pageSize response, total_r = total_r response\<rparr>"

text \<open>The callbacks given to \<^verbatim>\<open>subscribe\<close>, and \<^verbatim>\<open>onPageChange\<close>.\<close>

definition setOffset :: "surface \<Rightarrow> int \<Rightarrow> appContext \<Rightarrow> appContext" where
  "setOffset sf n c =
     (case sf of
        Concepts \<Rightarrow> c\<lparr>conceptSearch := (conceptSearch c)\<lparr>offset := n\<rparr>\<rparr>
      | ECLFilters \<Rightarrow> c\<lparr>eclSearch := (eclSearch c)\<lparr>offset := n\<rparr>\<rparr>
      | _ \<Rightarrow> c)"

definition callback :: "'j world \<Rightarrow> surface \<Rightarrow> token \<Rightarrow> state \<Rightarrow> state" where
  "callback W sf searchToken st =
     handleSearchField W searchToken sf (st\<lparr>ctx := setOffset sf 0 (ctx st)\<rparr>)"

definition onPageChange :: "'j world \<Rightarrow> surface \<Rightarrow> token \<Rightarrow> int \<Rightarrow> state \<Rightarrow> state" where
  "onPageChange W sf searchToken page st =
     (case sf of
        Concepts \<Rightarrow>
          handleSearchField W searchToken sf
            (st\<lparr>ctx := setOffset sf (count (conceptSearch (ctx st)) * (page - 1)) (ctx st)\<rparr>)
      | ECLFilters \<Rightarrow>
          handleSearchField W searchToken sf
            (st\<lparr>ctx := setOffset sf (count (eclSearch (ctx st)) * (page - 1)) (ctx st)\<rparr>)
      | _ \<Rightarrow> st)"

definition fieldEvent :: "'j world \<Rightarrow> surface \<Rightarrow> event \<Rightarrow> token \<Rightarrow> state \<Rightarrow> state" where
  "fieldEvent W sf evt now st =
     (case subscribe (minLengthOf sf) evt (fieldVal st sf) now (ctx st) of
        (c, fired) \<Rightarrow>
          (case fired of
             None \<Rightarrow> st\<lparr>ctx := c\<rparr>
           | Some searchToken \<Rightarrow> callback W sf searchToken (st\<lparr>ctx := c\<rparr>)))"

section \<open>The ECL filter rows\<close>

text \<open>The loop of \<^verbatim>\<open>updateSearchString\<close> over the filter rows, pushing onto both lists.\<close>

fun rebuild :: "filterRow list \<Rightarrow> string list \<times> string list \<Rightarrow> string list \<times> string list" where
  "rebuild [] (shortECL, longECL) = (shortECL, longECL)"
| "rebuild (f # fs) (shortECL, longECL) =
     (if opLong f = ''ANY'' then rebuild fs (shortECL @ [op f], longECL @ [opLong f])
      else if code f \<noteq> [] then
        (if label f \<noteq> [] then
           rebuild fs (shortECL @ [op f @ '' '' @ code f @ ''|'' @ label f @ ''|''],
                       longECL @ [opLong f @ '' '' @ code f @ ''|'' @ label f @ ''|''])
         else
           rebuild fs (shortECL @ [op f @ '' '' @ code f], longECL @ [opLong f @ '' '' @ code f]))
      else rebuild fs (shortECL, longECL))"

text \<open>\<^verbatim>\<open>Array.prototype.join\<close> on a list of strings.\<close>

fun join :: "string \<Rightarrow> string list \<Rightarrow> string" where
  "join sep [] = []"
| "join sep [x] = x"
| "join sep (x # y # ys) = x @ sep @ join sep (y # ys)"

definition setVal :: "surface \<Rightarrow> string \<Rightarrow> state \<Rightarrow> state" where
  "setVal sf v st =
     st\<lparr>fieldVal := (fieldVal st)(sf := v), labelActive := (labelActive st)(sf := (v \<noteq> []))\<rparr>"

definition ignoredKey :: "event option \<Rightarrow> bool" where
  "ignoredKey evt = (case evt of None \<Rightarrow> False | Some e \<Rightarrow> etype e = Keypress \<and> keyCode e \<noteq> 13)"

text \<open>
  \<^verbatim>\<open>updateSearchString(evt)\<close>: the short form is written into the ECL search field, and
  \<^verbatim>\<open>eclSearchField.change()\<close> runs the subscription of that field with a change event.
\<close>

definition updateSearchString :: "'j world \<Rightarrow> event option \<Rightarrow> token \<Rightarrow> state \<Rightarrow> state" where
  "updateSearchString W evt now st =
     (if ignoredKey evt then st
      else
        (case rebuild (filters st) ([], []) of
           (shortECL, longECL) \<Rightarrow>
             fieldEvent W ECLFilters \<lparr>etype = Change, keyCode = 0\<rparr> now
               (setVal ECLFilters (join '', '' shortECL) st)))"

section \<open>The page as a transition system\<close>

text \<open>
  What can happen to the page: the user edits a search field or the filter rows, an event
  reaches a search field or a filter field (with the reading of the clock at that moment),
  the user clicks a page link, the user scrolls the page, or a promise in flight settles.
\<close>

datatype input =
    Edit surface string
  | FieldEvent surface event token
  | EditFilters "filterRow list"
  | FilterEvent event token
  | PageClick surface int
  | UserScroll
  | Deliver nat

definition pageClick :: "'j world \<Rightarrow> surface \<Rightarrow> int \<Rightarrow> state \<Rightarrow> state" where
  "pageClick W sf i st =
     (case html (resultsContainer st sf) of
        Listing info items \<Rightarrow>
          (case info of
             None \<Rightarrow> st
           | Some pinfo \<Rightarrow>
               if shown (resultsContainer st sf) \<and> 1 \<le> i \<and> i \<le> npages (pager pinfo)
               then onPageChange W sf (pageCallback (pager pinfo)) i st
               else st)
      | Cleared \<Rightarrow> st | PageInfoStub \<Rightarrow> st | NoResults \<Rightarrow> st | ErrorNotice \<Rightarrow> st)"

definition deliver :: "'j world \<Rightarrow> nat \<Rightarrow> state \<Rightarrow> outcome" where
  "deliver W i st =
     (if i < length (inflight st) then
        (let st' = st\<lparr>inflight := take i (inflight st) @ drop (Suc i) (inflight st)\<rparr> in
         case inflight st ! i of
           MergedFlight sf searchToken p \<Rightarrow>
             (if p = Pending then Done st
              else settle W searchToken sf (then_promise asItems p) st')
         | ExpandFlight sf searchToken p \<Rightarrow>
             (if p = Pending then Done st
              else settle W searchToken sf (then_promise (simplified sf (ctx st)) p)
                     (focusResults sf p st')))
      else Done st)"

definition absorb :: "outcome \<Rightarrow> state" where
  "absorb out = (case out of Done s \<Rightarrow> s | Raised s \<Rightarrow> s | Hung s \<Rightarrow> s\<lparr>hung := True\<rparr>)"

definition step :: "'j world \<Rightarrow> state \<Rightarrow> input \<Rightarrow> state" where
  "step W st inp =
     (if hung st then st
      else
        (case inp of
           Edit sf v \<Rightarrow> st\<lparr>fieldVal := (fieldVal st)(sf := v)\<rparr>
         | FieldEvent sf evt now \<Rightarrow> fieldEvent W sf evt now st
         | EditFilters rows \<Rightarrow> st\<lparr>filters := rows\<rparr>
         | FilterEvent evt now \<Rightarrow> updateSearchString W (Some evt) now st
         | PageClick sf i \<Rightarrow> pageClick W sf i st
         | UserScroll \<Rightarrow> st\<lparr>viewport := Elsewhere\<rparr>
         | Deliver i \<Rightarrow> absorb (deliver W i st)))"

definition run :: "'j world \<Rightarrow> state \<Rightarrow> input list \<Rightarrow> state" where
  "run W st inps = foldl (step W) st inps"

text \<open>The page as it is loaded.\<close>

definition initial :: state where
  "initial =
     \<lparr>ctx = \<lparr>latestSearchToken = None,
             conceptSearch = \<lparr>count = 100, offset = 0, activeOnly = True, includeDesignations = True\<rparr>,
             eclSearch = \<lparr>count = 100, offset = 0, activeOnly = True, includeDesignations = True\<rparr>\<rparr>,
      fieldVal = (\<lambda>sf. if sf = ValueSets
                        then ''http://snomed.info/sct/83821000000107/version/20200415?fhir_vs''
                        else []),
      labelActive = (\<lambda>sf. False),
      resultsContainer = (\<lambda>sf. \<lparr>html = Cleared, shown = False\<rparr>),
      loadingIcon = (\<lambda>sf. \<lparr>rotation = False, paused = False\<rparr>),
      targetError = \<lparr>e_html = [], e_shown = True\<rparr>,
      filters = [\<lparr>op = ''<'', opLong = ''descendantOf'', code = ''55342001'',
                  label = ''Neoplastic disease''\<rparr>],
      sent = [],
      inflight = [],
      viewport = Elsewhere,
      hung = False\<rparr>"

section \<open>Notions of the specification\<close>

subsection \<open>Merging by identifier\<close>

definition ident :: "entry \<Rightarrow> string" where
  "ident item = rid (resource item)"

text \<open>The entries of a list that are the first with their identifier, in their order.\<close>

function first_seen :: "entry list \<Rightarrow> entry list" where
  "first_seen [] = []"
| "first_seen (x # xs) = x # first_seen (filter (\<lambda>y. ident y \<noteq> ident x) xs)"
  by pat_completeness auto
termination
  by (relation "measure length") (auto simp: less_Suc_eq_le)

text \<open>
  Merging the answers of a list of queries in the order of the list: every answer appends
  its entries that were not seen before; the first query that is not fulfilled decides.
\<close>

fun merge_in_order :: "entry response promise list \<Rightarrow> entry list \<Rightarrow> entry response promise" where
  "merge_in_order [] seen = Fulfilled (only_results seen)"
| "merge_in_order (Fulfilled r # ps) seen = merge_in_order ps (first_seen (seen @ results r))"
| "merge_in_order (Rejected e # ps) seen = Rejected e"
| "merge_in_order (Pending # ps) seen = Pending"

text \<open>The result list a promise resolves with, if it resolves.\<close>

definition resolved :: "'i response promise \<Rightarrow> 'i list option" where
  "resolved p = (case p of Fulfilled r \<Rightarrow> Some (results r) | Rejected e \<Rightarrow> None | Pending \<Rightarrow> None)"

text \<open>The promise of the query for one request, and the entries of the answer to it.\<close>

definition answered :: "(request \<Rightarrow> searchset ajax) \<Rightarrow> request \<Rightarrow> entry response promise" where
  "answered server q = fst (queryFHIRResource server (fst q) (snd q) [])"

definition answer :: "(request \<Rightarrow> searchset ajax) \<Rightarrow> request \<Rightarrow> entry list" where
  "answer server q =
     (case server q of
        Success b \<Rightarrow> (case entry b of None \<Rightarrow> [] | Some es \<Rightarrow> es)
      | Failure j t s \<Rightarrow> []
      | NoReply \<Rightarrow> [])"

subsection \<open>Tokens issued along a run\<close>





subsection \<open>Triggers, thresholds and pages\<close>

text \<open>A trigger is a committed value or the Enter key.\<close>

definition isTrigger :: "event \<Rightarrow> bool" where
  "isTrigger evt = (etype evt = Change \<or> (etype evt = Keypress \<and> keyCode evt = 13))"

definition threshold :: "surface \<Rightarrow> nat" where
  "threshold sf = (if sf = ECLFilters then 1 else 2)"

definition floorPage :: "int \<Rightarrow> int \<Rightarrow> int" where
  "floorPage off ps = \<lfloor>real_of_int off / real_of_int ps\<rfloor> + 1"

definition ceilPage :: "int \<Rightarrow> int \<Rightarrow> int" where
  "ceilPage off ps = \<lceil>real_of_int off / real_of_int ps\<rceil> + 1"

text \<open>What one filter row contributes to a form, given the operator of that form.\<close>

definition emitted :: "(filterRow \<Rightarrow> string) \<Rightarrow> filterRow \<Rightarrow> string option" where
  "emitted oper f =
     (if opLong f = ''ANY'' then Some (oper f)
      else if code f = [] then None
      else if label f \<noteq> [] then Some (oper f @ '' '' @ code f @ ''|'' @ label f @ ''|'')
      else Some (oper f @ '' '' @ code f))"

subsection \<open>Example data\<close>

definition sct :: entry where
  "sct = \<lparr>resource = \<lparr>rid = ''sct'', rname = ''SNOMED CT'', description = ''SNOMED Clinical Terms'',
                          url = ''http://snomed.info/sct''\<rparr>,
          fullUrl = ''https://ontoserver.dataproducts.nhs.uk/fhir/CodeSystem/sct''\<rparr>"

definition icd10 :: entry where
  "icd10 = \<lparr>resource = \<lparr>rid = ''icd10'', rname = ''ICD-10'', description = ''Maps from snomed'',
                            url = ''http://hl7.org/fhir/sid/icd-10''\<rparr>,
            fullUrl = ''https://ontoserver.dataproducts.nhs.uk/fhir/CodeSystem/icd10''\<rparr>"

definition snomed_server :: "request \<Rightarrow> searchset ajax" where
  "snomed_server q =
     (if q = (''CodeSystem'', [(''name:contains'', Str ''snomed'')]) then Success \<lparr>entry = Some [sct]\<rparr>
      else if q = (''CodeSystem'', [(''description:contains'', Str ''snomed'')])
        then Success \<lparr>entry = Some [icd10, sct]\<rparr>
      else Success \<lparr>entry = None\<rparr>)"

definition heart :: concept where
  "heart = \<lparr>code_c = ''80891009'', display = ''Heart structure'', system = ''http://snomed.info/sct'',
             designation = [], inactive = False\<rparr>"

text \<open>
  A server that knows one concept and fails with status 500 for every other filter; the
  only message to parse is then \<^verbatim>\<open>"500"\<close>, which is JSON for a number and is printed as it is.
  All numbers of the examples are safe integers, so the arithmetic of the engine beyond
  them is never consulted.
\<close>

definition heart_server :: "request \<Rightarrow> valueset ajax" where
  "heart_server q =
     (if map_of (snd q) ''filter'' = Some (Str ''heart'')
      then Success \<lparr>expansion = \<lparr>contains = Some [heart], offset_e = Some 0, total_e = Some 1\<rparr>\<rparr>
      else Failure False [] 500)"

definition demo :: "unit world" where
  "demo = \<lparr>searchServer = snomed_server, expandServer = heart_server,
           JSON_parse = (\<lambda>s. if s = ''500'' then Some () else None),
           JSON_stringify = (\<lambda>u. ''500''),
           Math_ceil_div = (\<lambda>x y. NaN)\<rparr>"

definition change :: event where
  "change = \<lparr>etype = Change, keyCode = 0\<rparr>"

definition enter :: event where
  "enter = \<lparr>etype = Keypress, keyCode = 13\<rparr>"

definition heart_run :: "input list" where
  "heart_run = [Edit Concepts ''heart'', FieldEvent Concepts change 1, Deliver 0]"

definition neoplastic :: filterRow where
  "neoplastic = \<lparr>op = ''<!'', opLong = ''childOf'', code = ''55342001'', label = ''Neoplastic disease''\<rparr>"

definition normalized :: "'j world \<Rightarrow> string \<Rightarrow> string" where
  "normalized W message =
     (case JSON_parse W message of Some jsonError \<Rightarrow> JSON_stringify W jsonError | None \<Rightarrow> message)"

definition stale_run :: "input list" where
  "stale_run = [Edit Concepts ''xx'', FieldEvent Concepts change 1,
                Edit Concepts ''heart'', FieldEvent Concepts change 2]"

definition failing_run :: "input list" where
  "failing_run = heart_run @ [Edit Concepts ''xx'', FieldEvent Concepts change 2]"



definition searched :: "input list" where
  "searched = [Edit Concepts ''heart'', FieldEvent Concepts change 1]"


definition heart_valueset :: valueset where
  "heart_valueset = \<lparr>expansion = \<lparr>contains = Some [heart], offset_e = Some 0, total_e = Some 1\<rparr>\<rparr>"

text \<open>The same world with a server that answers every expansion with the one concept.\<close>

definition willing :: "unit world" where
  "willing = demo\<lparr>expandServer := (\<lambda>q. Success heart_valueset)\<rparr>"





section \<open>Merged resource queries: results\<close>

lemma first_seen_append:
  "first_seen (a @ b) = first_seen a @ first_seen (filter (\<lambda>y. ident y \<notin> ident ` set a) b)"
proof (induction a arbitrary: b rule: first_seen.induct)
  case 1
  then show ?case by simp
next
  case (2 x xs)
  have "filter (\<lambda>y. ident y \<notin> ident ` set (filter (\<lambda>y. ident y \<noteq> ident x) xs))
          (filter (\<lambda>y. ident y \<noteq> ident x) b)
        = filter (\<lambda>y. ident y \<notin> ident ` set (x # xs)) b"
    unfolding filter_filter by (rule filter_cong) auto
  with 2 [of "filter (\<lambda>y. ident y \<noteq> ident x) b"] show ?case by simp
qed

lemma ident_first_seen: "ident ` set (first_seen xs) = ident ` set xs"
  by (induction xs rule: first_seen.induct) auto

lemma distinct_first_seen: "distinct (map ident (first_seen xs))"
  by (induction xs rule: first_seen.induct) (auto simp: ident_first_seen)

lemma first_seen_distinct: "distinct (map ident xs) \<Longrightarrow> first_seen xs = xs"
proof (induction xs)
  case Nil then show ?case by simp
next
  case (Cons x xs)
  from Cons.prems have "ident x \<notin> ident ` set xs" by simp
  then have "\<forall>y\<in>set xs. ident y \<noteq> ident x" by (metis imageI)
  then have "filter (\<lambda>y. ident y \<noteq> ident x) xs = xs"
    by (rule filter_True)
  with Cons show ?case by simp
qed

lemma addUnique_first_seen:
  "addUnique xs (R, map ident R)
     = (R @ first_seen (filter (\<lambda>y. ident y \<notin> ident ` set R) xs),
        map ident (R @ first_seen (filter (\<lambda>y. ident y \<notin> ident ` set R) xs)))"
proof (induction xs arbitrary: R)
  case Nil then show ?case by simp
next
  case (Cons x xs)
  show ?case
  proof (cases "ident x \<in> ident ` set R")
    case True
    then have "rid (resource x) \<in> set (map ident R)" by (simp add: ident_def)
    then show ?thesis using True Cons [of R] by simp
  next
    case False
    have "filter (\<lambda>y. ident y \<notin> ident ` set (R @ [x])) xs
          = filter (\<lambda>y. ident y \<noteq> ident x) (filter (\<lambda>y. ident y \<notin> ident ` set R) xs)"
      unfolding filter_filter by (rule filter_cong) auto
    moreover have "rid (resource x) \<notin> set (map ident R)" "rid (resource x) = ident x"
      using False by (simp_all add: ident_def)
    ultimately show ?thesis using False Cons [of "R @ [x]"] by simp
  qed
qed

lemma processResults_rev:
  "processResults qs (R, map ident R) = merge_in_order (rev qs) (first_seen R)"
  if "distinct (map ident R)"
  using that
proof (induction qs arbitrary: R rule: rev_induct)
  case Nil
  then show ?case by (simp add: processResults.simps first_seen_distinct)
next
  case (snoc q qs)
  show ?case
  proof (cases q)
    case (Fulfilled r)
    let ?R = "R @ first_seen (filter (\<lambda>y. ident y \<notin> ident ` set R) (results r))"
    have eq: "first_seen (R @ results r) = ?R"
      using snoc.prems by (simp add: first_seen_append first_seen_distinct)
    then have d: "distinct (map ident ?R)"
      using distinct_first_seen [of "R @ results r"] by simp
    have "processResults (qs @ [q]) (R, map ident R) = processResults qs (?R, map ident ?R)"
      using Fulfilled by (subst processResults.simps) (simp add: addUnique_first_seen)
    also have "\<dots> = merge_in_order (rev qs) (first_seen ?R)"
      by (rule snoc.IH [OF d])
    finally show ?thesis
      using Fulfilled eq d snoc.prems by (simp add: first_seen_distinct)
  next
    case (Rejected e)
    then show ?thesis by (subst processResults.simps) simp
  next
    case Pending
    then show ?thesis by (subst processResults.simps) simp
  qed
qed

lemma launch_eq:
  "launch server args (queries, reqs)
     = (queries @ map (\<lambda>q. fst (queryFHIRResource server (fst q) (snd q) [])) args, reqs @ args)"
  by (induction args arbitrary: queries reqs) (auto simp: queryFHIRResource_def query_def split: prod.splits)

lemma count_list_distinct: "distinct xs \<Longrightarrow> x \<in> set xs \<Longrightarrow> count_list xs x = 1"
  by (induction xs) auto

lemma first_seen_idem: "first_seen (first_seen a @ b) = first_seen (a @ b)"
  by (simp add: first_seen_append [of "first_seen a"] first_seen_append [of a]
        first_seen_distinct distinct_first_seen ident_first_seen)

lemma merge_in_order_fulfilled:
  "merge_in_order (map (\<lambda>es. Fulfilled (only_results es)) ess) seen
     = Fulfilled (only_results (first_seen (seen @ concat ess)))"
  if "distinct (map ident seen)"
  using that
proof (induction ess arbitrary: seen)
  case Nil
  then show ?case by (simp add: first_seen_distinct)
next
  case (Cons es ess)
  have "merge_in_order (map (\<lambda>es. Fulfilled (only_results es)) (es # ess)) seen
        = merge_in_order (map (\<lambda>es. Fulfilled (only_results es)) ess) (first_seen (seen @ es))"
    by (simp add: only_results_def)
  also have "\<dots> = Fulfilled (only_results (first_seen (first_seen (seen @ es) @ concat ess)))"
    by (rule Cons.IH) (rule distinct_first_seen)
  finally show ?case by (simp add: first_seen_idem)
qed

lemma merged_eq:
  "mergedFHIRResourceQueries server queriesArguments reqs
     = (merge_in_order (rev (map (answered server) queriesArguments)) [], reqs @ queriesArguments)"
  using processResults_rev [of "[]"]
  by (simp add: mergedFHIRResourceQueries_def launch_eq answered_def [abs_def])

lemma answered_Success:
  "server q = Success b \<Longrightarrow> answered server q = Fulfilled (only_results (answer server q))"
  by (cases q) (simp add: answered_def answer_def queryFHIRResource_def query_def then_promise_def)

text \<open>
  Claim C3. When every query succeeds, \<^verbatim>\<open>mergedFHIRResourceQueries\<close> resolves, and the list
  \<^verbatim>\<open>results\<close> of the object it resolves with keeps, from the answers taken in processing
  order (the last request first), the entries that are the first with their \<^verbatim>\<open>resource.id\<close>,
  in that order: no identifier occurs twice, and every identifier of an answer occurs in
  it exactly once.
\<close>

theorem mergedFHIRResourceQueries_unique:
  assumes "\<forall>q\<in>set queriesArguments. \<exists>b. server q = Success b"
  shows "\<exists>rs. resolved (fst (mergedFHIRResourceQueries server queriesArguments reqs)) = Some rs
           \<and> rs = first_seen (concat (map (answer server) (rev queriesArguments)))
           \<and> distinct (map ident rs)
           \<and> ident ` set rs = ident ` (\<Union>q\<in>set queriesArguments. set (answer server q))
           \<and> (\<forall>i\<in>ident ` (\<Union>q\<in>set queriesArguments. set (answer server q)).
                 count_list (map ident rs) i = 1)"
proof -
  let ?rs = "first_seen (concat (map (answer server) (rev queriesArguments)))"
  have "map (answered server) queriesArguments
          = map (\<lambda>es. Fulfilled (only_results es)) (map (answer server) queriesArguments)"
    using assms by (auto simp: answered_Success)
  then have "rev (map (answered server) queriesArguments)
          = map (\<lambda>es. Fulfilled (only_results es)) (map (answer server) (rev queriesArguments))"
    by (simp add: rev_map)
  moreover have "merge_in_order (map (\<lambda>es. Fulfilled (only_results es))
                    (map (answer server) (rev queriesArguments))) []
                 = Fulfilled (only_results ?rs)"
    using merge_in_order_fulfilled [of "[]" "map (answer server) (rev queriesArguments)"] by simp
  ultimately have
    "fst (mergedFHIRResourceQueries server queriesArguments reqs) = Fulfilled (only_results ?rs)"
    by (simp only: merged_eq fst_conv)
  then have 1: "resolved (fst (mergedFHIRResourceQueries server queriesArguments reqs)) = Some ?rs"
    by (simp add: resolved_def only_results_def)
  have 2: "ident ` set ?rs = ident ` (\<Union>q\<in>set queriesArguments. set (answer server q))"
    by (simp add: ident_first_seen)
  have 3: "distinct (map ident ?rs)"
    by (rule distinct_first_seen)
  have "count_list (map ident ?rs) i = 1" if "i \<in> ident ` set ?rs" for i
    using that 3 by (intro count_list_distinct) simp_all
  with 1 2 3 show ?thesis by metis
qed

text \<open>
  Claim C10. With no query arguments the promise is fulfilled with the empty result list,
  whatever the server would do, and the list of requests sent is as before.
\<close>

theorem mergedFHIRResourceQueries_empty:
  "mergedFHIRResourceQueries server [] reqs = (Fulfilled (only_results []), reqs)"
  by (simp add: mergedFHIRResourceQueries_def processResults.simps)

lemma snomed_answered:
  "map (answered snomed_server) (resourceQueries ''CodeSystem'' ''snomed'')
     = [Fulfilled (only_results [sct]), Fulfilled (only_results [icd10, sct]), Fulfilled (only_results [])]"
  by (simp add: resourceQueries_def answered_def queryFHIRResource_def query_def then_promise_def
        snomed_server_def)

lemma ident_sct_icd10: "ident sct = ''sct''" "ident icd10 = ''icd10''"
  by (simp_all add: ident_def sct_def icd10_def)

lemma icd10_neq_sct: "icd10 \<noteq> sct"
  by (simp add: sct_def icd10_def)

text \<open>
  Claim C4, amended. The promise of \<^verbatim>\<open>mergedFHIRResourceQueries\<close> is a function of the
  answers: the requests are sent in the order given, and the answers are merged in the
  reverse of that order, the last request first.
\<close>

theorem mergedFHIRResourceQueries_order:
  "mergedFHIRResourceQueries server queriesArguments reqs
     = (merge_in_order (rev (map (answered server) queriesArguments)) [], reqs @ queriesArguments)"
  by (rule merged_eq)

text \<open>
  Claim C4 as stated fails: for the three code system queries for \<^verbatim>\<open>snomed\<close>, where the
  name query finds \<^verbatim>\<open>sct\<close> and the description query finds \<^verbatim>\<open>icd10\<close> and \<^verbatim>\<open>sct\<close>, the
  result starts with \<^verbatim>\<open>icd10\<close>, while merging in the order of the requests starts with
  \<^verbatim>\<open>sct\<close>.
\<close>

theorem mergedFHIRResourceQueries_request_order_counterexample:
  "fst (mergedFHIRResourceQueries snomed_server (resourceQueries ''CodeSystem'' ''snomed'') [])
     = Fulfilled (only_results [icd10, sct])
   \<and> merge_in_order (map (answered snomed_server) (resourceQueries ''CodeSystem'' ''snomed'')) []
     = Fulfilled (only_results [sct, icd10])
   \<and> fst (mergedFHIRResourceQueries snomed_server (resourceQueries ''CodeSystem'' ''snomed'') [])
     \<noteq> merge_in_order (map (answered snomed_server) (resourceQueries ''CodeSystem'' ''snomed'')) []"
  by (simp add: merged_eq snomed_answered only_results_def ident_sct_icd10 icd10_neq_sct)

text \<open>The same three queries as an instance of claim C3: two entries, each identifier once.\<close>

theorem mergedFHIRResourceQueries_unique_witness:
  "resolved (fst (mergedFHIRResourceQueries snomed_server (resourceQueries ''CodeSystem'' ''snomed'') []))
       = Some [icd10, sct]
   \<and> map ident [icd10, sct] = [''icd10'', ''sct'']
   \<and> count_list (map ident [icd10, sct]) ''sct'' = 1
   \<and> count_list (map ident [icd10, sct]) ''icd10'' = 1"
proof -
  have h: "\<forall>q\<in>set (resourceQueries ''CodeSystem'' ''snomed''). \<exists>b. snomed_server q = Success b"
    by (simp add: resourceQueries_def snomed_server_def)
  have a: "concat (map (answer snomed_server) (rev (resourceQueries ''CodeSystem'' ''snomed''))) = [icd10, sct, sct]"
    by (simp add: resourceQueries_def answer_def snomed_server_def)
  from mergedFHIRResourceQueries_unique [OF h, of "[]"] show ?thesis
    by (simp add: a ident_sct_icd10)
qed

section \<open>Evaluation helpers\<close>

lemma ceil_quot_div: "\<lceil>real_of_int a / real_of_int b\<rceil> = - ((- a) div b)"
proof -
  have "- (real_of_int a / real_of_int b) = real_of_int (- a) / real_of_int b" by simp
  then show ?thesis unfolding ceiling_def by (simp only: floor_divide_of_int_eq)
qed

lemma Math_ceil_quot_Some:
  "Math_ceil_quot W (Some x) (Some y) =
     (if isSafeInteger x \<and> isSafeInteger y then
        (if y = 0 then (if x = 0 then NaN else if 0 < x then PosInf else NegInf)
         else Finite (- ((- x) div y)))
      else Math_ceil_div W x y)"
  by (simp add: Math_ceil_quot_def ceil_quot_div)

lemma Math_ceil_quot_None: "Math_ceil_quot W None b = NaN" "Math_ceil_quot W a None = NaN"
  by (simp_all add: Math_ceil_quot_def split: option.splits)

lemmas machine_defs = run_def step_def fieldEvent_def subscribe_def minLengthOf_def callback_def
  handleSearchField_def apiQueryBuilder_def setOffset_def deliver_def settle_def onResponse_def
  onError_def absorb_def isCurrent_def setHtml_def showResults_def addPaused_def simplified_def
  asItems_def then_promise_def query_def expandParams_def eclUrl_def getPagination_def
  currentPage_def pageCount_def Math_ceil_quot_Some Math_ceil_quot_None trim_def isWhiteSpace_def
  pageClick_def onPageChange_def updateSearchString_def ignoredKey_def setVal_def
  isSafeInteger_def focusResults_def

lemmas demo_defs = initial_def demo_def change_def enter_def heart_server_def Let_def willing_def
  heart_valueset_def

section \<open>The minimum length of a search value\<close>

lemma sent_apiQueryBuilder:
  "length (sent (apiQueryBuilder W sf k v st)) > length (sent st)"
  by (cases sf) (simp_all add: apiQueryBuilder_def merged_eq query_def resourceQueries_def)

lemma sent_callback: "length (sent (callback W sf k st)) > length (sent st)"
  using sent_apiQueryBuilder [of "st\<lparr>ctx := setOffset sf 0 (ctx st),
     loadingIcon := (loadingIcon st)(sf := \<lparr>rotation = True, paused = False\<rparr>)\<rparr>" W sf k "fieldVal st sf"]
  by (simp add: callback_def handleSearchField_def Let_def)

lemma subscribe_trigger:
  assumes "isTrigger evt"
  shows "subscribe m evt v now c
           = (if (case m of None \<Rightarrow> 2 | Some k \<Rightarrow> k) \<le> length (trim v)
              then (c\<lparr>latestSearchToken := Some now\<rparr>, Some now) else (c, None))"
proof -
  have "\<not> (etype evt = Keypress \<and> keyCode evt \<noteq> 13)"
    using assms by (auto simp: isTrigger_def)
  then show ?thesis
    by (auto simp: subscribe_def Let_def not_less)
qed

lemma threshold_minLengthOf: "(case minLengthOf sf of None \<Rightarrow> 2 | Some k \<Rightarrow> k) = threshold sf"
  by (cases sf) (simp_all add: minLengthOf_def threshold_def)

text \<open>
  Claim C7. For a trigger event (a committed value or the Enter key) the handler bound by
  \<^verbatim>\<open>subscribe\<close> mints a token and calls the search callback exactly when the trimmed value
  has at least the threshold length, which is 2 by default and 1 for the ECL search field;
  the callback sends at least one request, and below the threshold the page stays as it is.
\<close>

theorem subscription_threshold:
  assumes "isTrigger evt"
  shows "subscribe (minLengthOf sf) evt v now c
           = (if threshold sf \<le> length (trim v) then (c\<lparr>latestSearchToken := Some now\<rparr>, Some now)
              else (c, None))
       \<and> subscribe None evt v now c = subscribe (Some 2) evt v now c
       \<and> fieldEvent W sf evt now st
           = (if threshold sf \<le> length (trim (fieldVal st sf))
              then callback W sf now (st\<lparr>ctx := (ctx st)\<lparr>latestSearchToken := Some now\<rparr>\<rparr>)
              else st)
       \<and> length (sent st) < length (sent (callback W sf now st))"
proof (intro conjI)
  show "subscribe (minLengthOf sf) evt v now c
           = (if threshold sf \<le> length (trim v) then (c\<lparr>latestSearchToken := Some now\<rparr>, Some now)
              else (c, None))"
    by (simp only: subscribe_trigger [OF assms] threshold_minLengthOf)
  show "subscribe None evt v now c = subscribe (Some 2) evt v now c"
    by (simp add: subscribe_def)
  show "fieldEvent W sf evt now st
           = (if threshold sf \<le> length (trim (fieldVal st sf))
              then callback W sf now (st\<lparr>ctx := (ctx st)\<lparr>latestSearchToken := Some now\<rparr>\<rparr>)
              else st)"
    unfolding fieldEvent_def subscribe_trigger [OF assms] threshold_minLengthOf by simp
  show "length (sent st) < length (sent (callback W sf now st))"
    by (rule sent_callback)
qed

text \<open>A value of trimmed length 1 is below the default threshold and reaches the ECL one.\<close>

theorem subscription_threshold_witness:
  "subscribe (minLengthOf Concepts) change '' a '' 7 (ctx initial) = (ctx initial, None)
   \<and> subscribe (minLengthOf ECLFilters) change '' * '' 7 (ctx initial)
       = ((ctx initial)\<lparr>latestSearchToken := Some 7\<rparr>, Some 7)
   \<and> fieldEvent demo Concepts change 7 (initial\<lparr>fieldVal := (fieldVal initial)(Concepts := '' a '')\<rparr>)
       = initial\<lparr>fieldVal := (fieldVal initial)(Concepts := '' a '')\<rparr>"
  using subscription_threshold [of change Concepts "'' a ''" 7 "ctx initial" demo
          "initial\<lparr>fieldVal := (fieldVal initial)(Concepts := '' a '')\<rparr>"]
        subscription_threshold [of change ECLFilters "'' * ''" 7 "ctx initial" demo initial]
  by (simp add: isTrigger_def change_def threshold_def trim_def isWhiteSpace_def)

section \<open>Rendering the filter rows\<close>

lemma rebuild_eq:
  "rebuild rows (S, L)
     = (S @ List.map_filter (emitted op) rows, L @ List.map_filter (emitted opLong) rows)"
  by (induction rows arbitrary: S L) (simp_all add: emitted_def List.map_filter_simps)

lemma fieldVal_apiQueryBuilder: "fieldVal (apiQueryBuilder W sf k v st) = fieldVal st"
  by (cases sf) (simp_all add: apiQueryBuilder_def split: prod.splits)

lemma fieldVal_callback: "fieldVal (callback W sf k st) = fieldVal st"
  by (simp add: callback_def handleSearchField_def Let_def fieldVal_apiQueryBuilder)

lemma fieldVal_fieldEvent: "fieldVal (fieldEvent W sf evt now st) = fieldVal st"
  by (simp add: fieldEvent_def fieldVal_callback split: prod.splits option.splits)

text \<open>
  Claim C6. For every sequence of rows, each form holds what the rows emit, in order: a row
  whose long operator is \<^verbatim>\<open>ANY\<close> emits its bare operator, any other row with an empty code
  emits nothing, and a row with a code emits operator, code and, when the label is not
  empty, the label between bars. The ECL search field receives the short strings joined
  with a comma and a space.
\<close>

theorem ecl_rendering:
  "rebuild rows ([], [])
     = (List.map_filter (emitted op) rows, List.map_filter (emitted opLong) rows)
   \<and> (\<not> ignoredKey evt \<longrightarrow>
        fieldVal (updateSearchString W evt now st) ECLFilters
          = join '', '' (List.map_filter (emitted op) (filters st)))
   \<and> (ignoredKey evt \<longrightarrow> updateSearchString W evt now st = st)"
  by (simp add: rebuild_eq updateSearchString_def fieldVal_fieldEvent setVal_def)

text \<open>The rows of the examples: child of neoplastic disease, the wildcard, an empty code.\<close>

theorem ecl_rendering_witness:
  "fieldVal (updateSearchString demo None 5 (initial\<lparr>filters := [neoplastic]\<rparr>)) ECLFilters
     = ''<! 55342001|Neoplastic disease|''
   \<and> fieldVal (updateSearchString demo (Some change) 5
         (initial\<lparr>filters := [\<lparr>op = ''*'', opLong = ''ANY'', code = ''55342001'', label = ''x''\<rparr>]\<rparr>)) ECLFilters
     = ''*''
   \<and> rebuild [neoplastic, \<lparr>op = ''<'', opLong = ''descendantOf'', code = [], label = ''Heart''\<rparr>] ([], [])
     = ([''<! 55342001|Neoplastic disease|''], [''childOf 55342001|Neoplastic disease|''])
   \<and> fieldVal (updateSearchString demo None 5
         (initial\<lparr>filters := [neoplastic, \<lparr>op = ''<<'', opLong = ''descendantOrSelfOf'', code = ''80891009'', label = []\<rparr>]\<rparr>)) ECLFilters
     = ''<! 55342001|Neoplastic disease|, << 80891009''"
  using ecl_rendering [of "[neoplastic, \<lparr>op = ''<'', opLong = ''descendantOf'', code = [], label = ''Heart''\<rparr>]"
          None demo 5 "initial\<lparr>filters := [neoplastic]\<rparr>"]
        ecl_rendering [of "[]" "Some change" demo 5
          "initial\<lparr>filters := [\<lparr>op = ''*'', opLong = ''ANY'', code = ''55342001'', label = ''x''\<rparr>]\<rparr>"]
        ecl_rendering [of "[]" None demo 5
          "initial\<lparr>filters := [neoplastic, \<lparr>op = ''<<'', opLong = ''descendantOrSelfOf'', code = ''80891009'', label = []\<rparr>]\<rparr>"]
  by (simp add: ignoredKey_def change_def emitted_def List.map_filter_simps neoplastic_def)

section \<open>Failed searches\<close>

lemma absorb_simps:
  "absorb (Done s) = s" "absorb (Raised s) = s" "absorb (Hung s) = s\<lparr>hung := True\<rparr>"
  by (simp_all add: absorb_def)

lemma sent_onResponse: "sent (absorb (onResponse W k sf r st)) = sent st"
  by (simp add: onResponse_def absorb_def setHtml_def showResults_def addPaused_def Let_def
      split: option.splits completion.splits)


lemma sent_onError: "sent (onError W k sf m st) = sent st"
  by (simp add: onError_def setHtml_def showResults_def addPaused_def Let_def)


lemma sent_settle: "sent (absorb (settle W k sf p st)) = sent st"
  by (cases p) (simp_all add: settle_def sent_onResponse sent_onError absorb_simps)


lemma focusResults_frame:
  "sent (focusResults sf p st) = sent st" "ctx (focusResults sf p st) = ctx st"
  by (simp_all add: focusResults_def split: promise.splits)

lemma sent_deliver: "sent (absorb (deliver W i st)) = sent st"
  by (simp add: deliver_def Let_def sent_settle focusResults_frame absorb_simps split: flight.splits)


lemma deliver_rejected:
  assumes "i < length (inflight st)"
    and "inflight st ! i = ExpandFlight sf k (Rejected message)
         \<or> inflight st ! i = MergedFlight sf k (Rejected message)"
  shows "deliver W i st
         = Done (onError W k sf message
                   (st\<lparr>inflight := take i (inflight st) @ drop (Suc i) (inflight st)\<rparr>))"
  using assms by (auto simp: deliver_def settle_def then_promise_def focusResults_def Let_def)

text \<open>
  Claim C8. A rejected search runs the error callback whatever the latest token is: the
  error box is shown with the message pretty-printed when it parses as JSON and verbatim
  otherwise, also when the rejected promise in flight belongs to a superseded token.
\<close>

theorem error_always_surfaced:
  "settle W searchToken sf (Rejected message) st = Done (onError W searchToken sf message st)
   \<and> targetError (onError W searchToken sf message st)
       = \<lparr>e_html = normalized W message, e_shown = True\<rparr>
   \<and> (\<not> hung st \<and> i < length (inflight st)
        \<and> (inflight st ! i = ExpandFlight sf searchToken (Rejected message)
           \<or> inflight st ! i = MergedFlight sf searchToken (Rejected message))
      \<longrightarrow> targetError (step W st (Deliver i)) = \<lparr>e_html = normalized W message, e_shown = True\<rparr>)"
proof (intro conjI impI)
  show "settle W searchToken sf (Rejected message) st = Done (onError W searchToken sf message st)"
    by (simp add: settle_def)
  show t: "targetError (onError W searchToken sf message st)
       = \<lparr>e_html = normalized W message, e_shown = True\<rparr>" for st
    by (simp add: onError_def normalized_def Let_def)
  assume "\<not> hung st \<and> i < length (inflight st)
        \<and> (inflight st ! i = ExpandFlight sf searchToken (Rejected message)
           \<or> inflight st ! i = MergedFlight sf searchToken (Rejected message))"
  then have "\<not> hung st"
    and "deliver W i st
         = Done (onError W searchToken sf message
                   (st\<lparr>inflight := take i (inflight st) @ drop (Suc i) (inflight st)\<rparr>))"
    by (simp_all add: deliver_rejected)
  then show "targetError (step W st (Deliver i)) = \<lparr>e_html = normalized W message, e_shown = True\<rparr>"
    by (simp add: step_def absorb_simps t)
qed

lemma string_of_nat_500: "string_of_nat 500 = ''500''"
  by (simp add: string_of_nat.simps [of 500] string_of_nat.simps [of 50] string_of_nat.simps [of 5]
      digit_char_def)

text \<open>The failure of a superseded concept search is still shown.\<close>

theorem error_always_surfaced_witness:
  "\<not> isCurrent (run demo initial stale_run) 1
   \<and> inflight (run demo initial stale_run) ! 0 = ExpandFlight Concepts 1 (Rejected ''500'')
   \<and> targetError (step demo (run demo initial stale_run) (Deliver 0)) = \<lparr>e_html = ''500'', e_shown = True\<rparr>"
  using error_always_surfaced [of demo 1 Concepts "''500''" "run demo initial stale_run" 0]
  by (simp add: stale_run_def machine_defs demo_defs normalized_def string_of_nat_500)

lemma pane_update_all: "(p::pane)\<lparr>html := a, shown := b\<rparr> = \<lparr>html = a, shown = b\<rparr>"
  by (cases p) simp

text \<open>
  Claim C9, amended. A failed search replaces the content of the results container of its
  surface by the error notice and shows it, pauses the loading icon of the surface and
  shows the error box; the other containers, the context with its token and offsets, the
  fields, the filter rows and the promises in flight stay as they are, and settling a
  promise never sends a request.
\<close>

theorem failed_search_frame:
  "resultsContainer (onError W k sf message st)
     = (resultsContainer st)(sf := \<lparr>html = ErrorNotice, shown = True\<rparr>)
   \<and> loadingIcon (onError W k sf message st)
     = (loadingIcon st)(sf := (loadingIcon st sf)\<lparr>paused := True\<rparr>)
   \<and> targetError (onError W k sf message st) = \<lparr>e_html = normalized W message, e_shown = True\<rparr>
   \<and> ctx (onError W k sf message st) = ctx st
   \<and> sent (onError W k sf message st) = sent st
   \<and> inflight (onError W k sf message st) = inflight st
   \<and> fieldVal (onError W k sf message st) = fieldVal st
   \<and> filters (onError W k sf message st) = filters st
   \<and> sent (step W st (Deliver i)) = sent st"
proof -
  have "sent (step W st (Deliver i)) = sent st"
    by (simp add: step_def sent_deliver)
  then show ?thesis
    by (simp add: onError_def setHtml_def showResults_def addPaused_def normalized_def Let_def
        pane_update_all)
qed

text \<open>The failure of the second concept search, on the run of the counterexample below.\<close>

theorem failed_search_frame_witness:
  "resultsContainer (onError demo 2 Concepts ''500'' (run demo initial failing_run)) Concepts
     = \<lparr>html = ErrorNotice, shown = True\<rparr>
   \<and> ctx (onError demo 2 Concepts ''500'' (run demo initial failing_run))
     = ctx (run demo initial failing_run)
   \<and> sent (step demo (run demo initial failing_run) (Deliver 0)) = sent (run demo initial failing_run)"
  using failed_search_frame [of demo 2 Concepts "''500''" "run demo initial failing_run" 0]
  by simp

text \<open>
  Claim C9 as stated fails: after a search for \<^verbatim>\<open>heart\<close> has listed one concept, the failure
  of the next search replaces that listing by the error notice.
\<close>

theorem failed_search_keeps_results_counterexample:
  "resultsContainer (run demo initial failing_run) Concepts
     = \<lparr>html = Listing (Some \<lparr>firstResult = 1, lastResult = 1, ofTotal = Some 1,
                               pager = \<lparr>current = 1, npages = 1, pageCallback = 1\<rparr>\<rparr>)
                      [ConceptItem heart],
        shown = True\<rparr>
   \<and> inflight (run demo initial failing_run) = [ExpandFlight Concepts 2 (Rejected ''500'')]
   \<and> resultsContainer (step demo (run demo initial failing_run) (Deliver 0)) Concepts
     = \<lparr>html = ErrorNotice, shown = True\<rparr>
   \<and> resultsContainer (step demo (run demo initial failing_run) (Deliver 0)) Concepts
     \<noteq> resultsContainer (run demo initial failing_run) Concepts"
  by (simp add: failing_run_def heart_run_def machine_defs demo_defs string_of_nat_500)

section \<open>Stale responses\<close>









section \<open>Pagination arithmetic\<close>

lemma ceilPage_multiple:
  assumes "ps \<noteq> 0" and "ps dvd off"
  shows "ceilPage off ps = floorPage off ps"
proof -
  from assms obtain k where "off = ps * k" by (auto simp: dvd_def)
  with assms show ?thesis
    by (simp add: ceilPage_def floorPage_def)
qed

lemma ceilPage_navigated:
  assumes "ps \<noteq> 0"
  shows "ceilPage (ps * (p - 1)) ps = p"
  using assms by (simp add: ceilPage_def)





lemma ceilPage_div: "ceilPage off ps = - ((- off) div ps) + 1"
  by (simp add: ceilPage_def ceil_quot_div)

lemma isCurrent_searched: "isCurrent (run demo initial searched) 1"
  by (simp add: searched_def machine_defs demo_defs)

lemma currentPage_requested:
  assumes "ps \<noteq> 0" and "isSafeInteger ps" and "isSafeInteger (ps * (p - 1))"
  shows "currentPage W \<lparr>results = rs, offset_r = Some (ps * (p - 1)), pageSize = Some ps, total_r = t\<rparr>
         = Finite (floorPage (ps * (p - 1)) ps)"
  using assms ceilPage_multiple [of ps "ps * (p - 1)"]
  by (simp add: currentPage_def Math_ceil_quot_def ceilPage_def)


section \<open>One token for all surfaces\<close>













end
